theory Spec2Isabelle
  imports Main
begin

section \<open>The table component's derived-data pipeline (components/table/Table.tsx)\<close>

text \<open>
  The component \<open>InteralTable\<close> of \<open>Table.tsx\<close> is embedded function by function.
  JavaScript numbers that count rows and pages are integers (\<open>int\<close>); an optional field
  (\<open>current?: number\<close>) is an \<open>option\<close>, \<open>None\<close> standing for \<open>undefined\<close>; calls of
  handlers that live outside \<open>Table.tsx\<close> are recorded, in order, in a list of events;
  diagnostics written by \<open>devWarning\<close> are returned, in order, next to the value.
\<close>

subsection \<open>JavaScript primitives used by the component\<close>

text \<open>
  \<open>Array.prototype.slice(start, end)\<close> on integer arguments: a negative index counts
  from the end of the array, both indices are clamped to the array, and an empty range
  gives the empty array. It never throws.
\<close>

definition js_slice :: "'a list \<Rightarrow> int \<Rightarrow> int \<Rightarrow> 'a list" where
  "js_slice xs start end' =
     (let len = int (length xs);
          k = (if start < 0 then max (len + start) 0 else min start len);
          final = (if end' < 0 then max (len + end') 0 else min end' len)
      in take (nat (max (final - k) 0)) (drop (nat k) xs))"

text \<open>Truthiness of an optional number: \<open>undefined\<close> and \<open>0\<close> are falsy.\<close>

definition truthy :: "int option \<Rightarrow> bool" where
  "truthy v = (case v of None \<Rightarrow> False | Some n \<Rightarrow> n \<noteq> 0)"

text \<open>
  \<open>n < total!\<close> where \<open>total\<close> may be \<open>undefined\<close>: a comparison with \<open>undefined\<close>
  is false.
\<close>

definition js_less_opt :: "int \<Rightarrow> int option \<Rightarrow> bool" where
  "js_less_opt n t = (case t of None \<Rightarrow> False | Some m \<Rightarrow> n < m)"

subsection \<open>Diagnostics\<close>

text \<open>A diagnostic names the component and carries the message.\<close>

type_synonym warning = "string \<times> string"

text \<open>
  Modelled from the spec: \<open>devWarning\<close> of \<open>vc-util/devWarning\<close> is not part of
  \<open>Table.tsx\<close>. Section 7 of the specification describes configuration warnings as
  non-fatal diagnostics that are logged, never thrown, after which execution continues.
  \<open>devWarning valid component message\<close> therefore yields the diagnostics to append to
  the log: the message when \<open>valid\<close> is false, nothing otherwise.
\<close>

definition devWarning :: "bool \<Rightarrow> string \<Rightarrow> string \<Rightarrow> warning list" where
  "devWarning valid component message = (if valid then [] else [(component, message)])"

text \<open>The three messages of \<open>Table.tsx\<close>, and the diagnostics that carry them.\<close>

definition current_message :: string where
  "current_message = ''`current` should be positive number.''"

definition dynamic_total_message :: string where
  "dynamic_total_message =
     ''`dataSource` length is less than `pagination.total` but large than `pagination.pageSize`. Please make sure your config correct data with async mode.''"

definition rowKey_index_message :: string where
  "rowKey_index_message =
     ''`index` parameter of `rowKey` function is deprecated. There is no guarantee that it will work as expected.''"

definition current_warning :: warning where
  "current_warning = (''Table'', current_message)"

definition dynamic_total_warning :: warning where
  "dynamic_total_warning = (''Table'', dynamic_total_message)"

definition rowKey_index_warning :: warning where
  "rowKey_index_warning = (''Table'', rowKey_index_message)"

subsection \<open>Pagination objects\<close>

text \<open>
  The \<open>pagination\<close> member of \<open>ChangeEventInfo\<close>: three optional numbers. The empty
  object \<open>{}\<close> has all three absent.
\<close>

record pagination_info =
  current :: "int option"
  pageSize :: "int option"
  total' :: "int option"

definition empty_pagination :: pagination_info where
  "empty_pagination = \<lparr>current = None, pageSize = None, total' = None\<rparr>"

text \<open>
  \<open>TablePaginationConfig\<close>, as far as \<open>Table.tsx\<close> reads it: the three numbers and
  whether an \<open>onChange\<close> handler is configured.
\<close>

record TablePaginationConfig = pagination_info +
  has_onChange :: bool

text \<open>The \<open>pagination\<close> prop: \<open>false | TablePaginationConfig\<close>, or not given.\<close>

datatype pagination_prop =
    PaginationFalse
  | PaginationUndefined
  | PaginationConfig TablePaginationConfig

subsection \<open>The visible page (\<open>pageData\<close>)\<close>

text \<open>
  \<open>pageData\<close> reads \<open>props.pagination\<close>, the merged pagination of the pagination hook
  and the sorted and filtered data. \<open>DEFAULT_PAGE_SIZE\<close> is imported from the
  pagination hook and is a parameter here. The result is the list of diagnostics
  emitted, in order, and the page.
\<close>

definition pageData ::
  "int \<Rightarrow> pagination_prop \<Rightarrow> TablePaginationConfig \<Rightarrow> 'r list \<Rightarrow> warning list \<times> 'r list" where
  "pageData DEFAULT_PAGE_SIZE pagination mergedPagination mergedData =
     (if pagination = PaginationFalse \<or> \<not> truthy (pageSize mergedPagination)
      then ([], mergedData)
      else
        let cur = (case current mergedPagination of None \<Rightarrow> 1 | Some c \<Rightarrow> c);
            size' = (case pageSize mergedPagination of None \<Rightarrow> DEFAULT_PAGE_SIZE | Some p \<Rightarrow> p);
            w = devWarning (cur > 0) ''Table'' current_message
        in if js_less_opt (int (length mergedData)) (total' mergedPagination)
           then (if int (length mergedData) > size'
                 then (w @ devWarning False ''Table'' dynamic_total_message,
                       js_slice mergedData ((cur - 1) * size') (cur * size'))
                 else (w, mergedData))
           else (w, js_slice mergedData ((cur - 1) * size') (cur * size')))"

subsection \<open>Records, row keys and props\<close>

text \<open>
  A row of the dataset (\<open>DefaultRecordType\<close>) is an object read by field name; a
  missing field reads as \<open>undefined\<close> (\<open>None\<close>). The optional chaining in
  \<open>record?.[key]\<close> admits a row that is itself \<open>null\<close> or \<open>undefined\<close>: \<open>None\<close>.
\<close>

type_synonym 'v DefaultRecordType = "string \<rightharpoonup> 'v"

type_synonym 'v RecordType = "'v DefaultRecordType option"

text \<open>
  The \<open>rowKey\<close> prop: a function of \<open>(record, index)\<close>, kept with its \<open>length\<close> (the
  number of parameters it declares), a field name, or not given.
\<close>

datatype 'v rowKey_prop =
    RowKeyFunction nat "'v RecordType \<Rightarrow> int \<Rightarrow> 'v option"
  | RowKeyName string
  | RowKeyUndefined

record scroll_prop =
  scrollToFirstRowOnChange :: "bool option"

text \<open>
  The props that the modelled part of \<open>setup\<close> reads. \<open>props_onChange\<close> tells whether
  an \<open>onChange\<close> handler is configured; its calls are events.
\<close>

record 'v TableProps =
  props_dataSource :: "'v RecordType list option"
  props_pagination :: pagination_prop
  props_rowKey :: "'v rowKey_prop"
  props_childrenColumnName :: "string option"
  props_scroll :: "scroll_prop option"
  props_onChange :: bool

definition rawData :: "'v TableProps \<Rightarrow> 'v RecordType list" where
  "rawData props = (case props_dataSource props of None \<Rightarrow> [] | Some d \<Rightarrow> d)"

definition childrenColumnName :: "'v TableProps \<Rightarrow> string" where
  "childrenColumnName props =
     (case props_childrenColumnName props of
        None \<Rightarrow> ''children''
      | Some s \<Rightarrow> (if s = [] then ''children'' else s))"

text \<open>
  \<open>getRowKey\<close>: the configured function itself, or the reader of the configured field.
  A \<open>rowKey\<close> that is not given reads the field named by the string conversion of
  \<open>undefined\<close>.
\<close>

definition getRowKey :: "'v TableProps \<Rightarrow> 'v RecordType \<Rightarrow> int \<Rightarrow> 'v option" where
  "getRowKey props =
     (case props_rowKey props of
        RowKeyFunction n f \<Rightarrow> f
      | RowKeyName name \<Rightarrow>
          (\<lambda>record index. case record of None \<Rightarrow> None | Some r \<Rightarrow> r name)
      | RowKeyUndefined \<Rightarrow>
          (\<lambda>record index. case record of None \<Rightarrow> None | Some r \<Rightarrow> r ''undefined''))"

subsection \<open>The hooks and what they export\<close>

text \<open>
  \<open>getSortData\<close>, \<open>getFilterData\<close> and \<open>getPaginationParam\<close> are imported from the
  hooks and are parameters of the model, as are the types of sorter results (\<open>'so\<close>),
  sort states (\<open>'ss\<close>), filter values (\<open>'f\<close>) and filter states (\<open>'fs\<close>).
\<close>

record ('v, 'fs, 'ss) imported =
  getSortData :: "'v RecordType list \<Rightarrow> 'ss \<Rightarrow> string \<Rightarrow> 'v RecordType list"
  getFilterData :: "'v RecordType list \<Rightarrow> 'fs \<Rightarrow> 'v RecordType list"
  getPaginationParam :: "pagination_prop \<Rightarrow> TablePaginationConfig \<Rightarrow> pagination_info"

text \<open>The current values of the refs returned by the three hooks.\<close>

record ('f, 'so, 'fs, 'ss) hook_values =
  sorters_value :: 'so
  sortStates_value :: 'ss
  filters_value :: 'f
  filterStates_value :: 'fs
  mergedPagination_value :: TablePaginationConfig

definition sortedData ::
  "('v, 'fs, 'ss) imported \<Rightarrow> 'v TableProps \<Rightarrow> ('f, 'so, 'fs, 'ss) hook_values
     \<Rightarrow> 'v RecordType list" where
  "sortedData ext props hooks =
     getSortData ext (rawData props) (sortStates_value hooks) (childrenColumnName props)"

definition mergedData ::
  "('v, 'fs, 'ss) imported \<Rightarrow> 'v TableProps \<Rightarrow> ('f, 'so, 'fs, 'ss) hook_values
     \<Rightarrow> 'v RecordType list" where
  "mergedData ext props hooks = getFilterData ext (sortedData ext props hooks) (filterStates_value hooks)"

text \<open>
  What the render function passes to the grid as \<open>data\<close>: \<open>pageData.value\<close>, computed
  from the props, the merged pagination and \<open>mergedData\<close>.
\<close>

definition rendered_data ::
  "int \<Rightarrow> ('v, 'fs, 'ss) imported \<Rightarrow> 'v TableProps \<Rightarrow> ('f, 'so, 'fs, 'ss) hook_values
     \<Rightarrow> warning list \<times> 'v RecordType list" where
  "rendered_data DEFAULT_PAGE_SIZE ext props hooks =
     pageData DEFAULT_PAGE_SIZE (props_pagination props) (mergedPagination_value hooks)
       (mergedData ext props hooks)"

text \<open>
  The render function shows the pagination widget only when pagination is not \<open>false\<close>
  and the merged total is truthy.
\<close>

definition pagination_rendered ::
  "'v TableProps \<Rightarrow> ('f, 'so, 'fs, 'ss) hook_values \<Rightarrow> bool" where
  "pagination_rendered props hooks =
     (props_pagination props \<noteq> PaginationFalse \<and> truthy (total' (mergedPagination_value hooks)))"

subsection \<open>The change event\<close>

datatype TableAction = ActionPaginate | ActionSort | ActionFilter

text \<open>
  \<open>ChangeEventInfo\<close>. Its member \<open>resetPagination\<close> is the reset operation of the
  pagination hook; calling it is the event \<open>ResetPagination\<close>.
\<close>

record ('f, 'so, 'fs, 'ss) ChangeEventInfo =
  pagination :: pagination_info
  filters :: 'f
  sorter :: 'so
  filterStates :: 'fs
  sorterStates :: 'ss

text \<open>\<open>Partial<ChangeEventInfo>\<close>, the argument \<open>info\<close>: \<open>None\<close> is a member not given.\<close>

record ('f, 'so, 'fs, 'ss) PartialChangeEventInfo =
  partial_pagination :: "pagination_info option"
  partial_filters :: "'f option"
  partial_sorter :: "'so option"
  partial_filterStates :: "'fs option"
  partial_sorterStates :: "'ss option"

text \<open>
  Calls that leave \<open>Table.tsx\<close>, in the order made: the reset operation of the
  pagination hook, \<open>pagination.onChange(current, pageSize)\<close>, \<open>scrollTo\<close>, and
  \<open>onChange(pagination, filters, sorter, {currentDataSource, action})\<close>.
\<close>

datatype ('v, 'f, 'so) event =
    ResetPagination
  | PaginationOnChange int "int option"
  | ScrollTo
  | OnChange pagination_info 'f 'so "'v RecordType list" TableAction

text \<open>\<open>{...changeEventInfo, ...info}\<close>: a member given by \<open>info\<close> wins.\<close>

definition spread ::
  "('f, 'so, 'fs, 'ss) ChangeEventInfo \<Rightarrow> ('f, 'so, 'fs, 'ss) PartialChangeEventInfo
     \<Rightarrow> ('f, 'so, 'fs, 'ss) ChangeEventInfo" where
  "spread changeEventInfo info =
     \<lparr>pagination = (case partial_pagination info of None \<Rightarrow> pagination changeEventInfo | Some p \<Rightarrow> p),
      filters = (case partial_filters info of None \<Rightarrow> filters changeEventInfo | Some f \<Rightarrow> f),
      sorter = (case partial_sorter info of None \<Rightarrow> sorter changeEventInfo | Some s \<Rightarrow> s),
      filterStates =
        (case partial_filterStates info of None \<Rightarrow> filterStates changeEventInfo | Some f \<Rightarrow> f),
      sorterStates =
        (case partial_sorterStates info of None \<Rightarrow> sorterStates changeEventInfo | Some s \<Rightarrow> s)\<rparr>"

text \<open>
  \<open>triggerOnChange\<close>. \<open>body\<close> tells whether \<open>internalRefs.body\<close> holds an element.
  The spread copies references: when \<open>info\<close> gives no \<open>pagination\<close>, the object whose
  \<open>current\<close> is set to 1 is the one held by \<open>changeEventInfo\<close>, so the function returns
  the snapshot as the call leaves it, and the events.
\<close>

definition triggerOnChange ::
  "('v, 'fs, 'ss) imported \<Rightarrow> 'v TableProps \<Rightarrow> bool
     \<Rightarrow> ('f, 'so, 'fs, 'ss) ChangeEventInfo \<Rightarrow> ('f, 'so, 'fs, 'ss) PartialChangeEventInfo
     \<Rightarrow> TableAction \<Rightarrow> bool
     \<Rightarrow> ('f, 'so, 'fs, 'ss) ChangeEventInfo \<times> ('v, 'f, 'so) event list" where
  "triggerOnChange ext props body changeEventInfo info action reset =
     (let changeInfo = spread changeEventInfo info;
          p = (if reset \<and> truthy (current (pagination changeInfo))
               then (pagination changeInfo)\<lparr>current := Some 1\<rparr>
               else pagination changeInfo);
          changeEventInfo' =
            (if partial_pagination info = None
             then changeEventInfo\<lparr>pagination := p\<rparr> else changeEventInfo);
          reset_events =
            (if reset
             then ResetPagination #
               (case props_pagination props of
                  PaginationConfig c \<Rightarrow>
                    (if has_onChange c then [PaginationOnChange 1 (pageSize p)] else [])
                | _ \<Rightarrow> [])
             else []);
          scroll_events =
            (case props_scroll props of
               None \<Rightarrow> []
             | Some s \<Rightarrow>
                 (if scrollToFirstRowOnChange s \<noteq> Some False \<and> body then [ScrollTo] else []));
          change_events =
            (if props_onChange props
             then [OnChange p (filters changeInfo) (sorter changeInfo)
                     (getFilterData ext
                        (getSortData ext (rawData props) (sorterStates changeInfo)
                           (childrenColumnName props))
                        (filterStates changeInfo))
                     action]
             else [])
      in (changeEventInfo', reset_events @ scroll_events @ change_events))"

definition onSorterChange ::
  "('v, 'fs, 'ss) imported \<Rightarrow> 'v TableProps \<Rightarrow> bool
     \<Rightarrow> ('f, 'so, 'fs, 'ss) ChangeEventInfo \<Rightarrow> 'so \<Rightarrow> 'ss
     \<Rightarrow> ('f, 'so, 'fs, 'ss) ChangeEventInfo \<times> ('v, 'f, 'so) event list" where
  "onSorterChange ext props body changeEventInfo sorter' sorterStates' =
     triggerOnChange ext props body changeEventInfo
       \<lparr>partial_pagination = None, partial_filters = None, partial_sorter = Some sorter',
        partial_filterStates = None, partial_sorterStates = Some sorterStates'\<rparr>
       ActionSort False"

definition onFilterChange ::
  "('v, 'fs, 'ss) imported \<Rightarrow> 'v TableProps \<Rightarrow> bool
     \<Rightarrow> ('f, 'so, 'fs, 'ss) ChangeEventInfo \<Rightarrow> 'f \<Rightarrow> 'fs
     \<Rightarrow> ('f, 'so, 'fs, 'ss) ChangeEventInfo \<times> ('v, 'f, 'so) event list" where
  "onFilterChange ext props body changeEventInfo filters' filterStates' =
     triggerOnChange ext props body changeEventInfo
       \<lparr>partial_pagination = None, partial_filters = Some filters', partial_sorter = None,
        partial_filterStates = Some filterStates', partial_sorterStates = None\<rparr>
       ActionFilter True"

definition onPaginationChange ::
  "('v, 'fs, 'ss) imported \<Rightarrow> 'v TableProps \<Rightarrow> bool
     \<Rightarrow> ('f, 'so, 'fs, 'ss) ChangeEventInfo \<Rightarrow> int \<Rightarrow> int
     \<Rightarrow> ('f, 'so, 'fs, 'ss) ChangeEventInfo \<times> ('v, 'f, 'so) event list" where
  "onPaginationChange ext props body changeEventInfo current' pageSize' =
     triggerOnChange ext props body changeEventInfo
       \<lparr>partial_pagination =
          Some ((pagination changeEventInfo)\<lparr>current := Some current', pageSize := Some pageSize'\<rparr>),
        partial_filters = None, partial_sorter = None,
        partial_filterStates = None, partial_sorterStates = None\<rparr>
       ActionPaginate False"

text \<open>
  The \<open>watchEffect\<close> of \<open>setup\<close> assigns every member of \<open>changeEventInfo\<close> from the
  hooks' current values; it runs once inside \<open>setup\<close> and again after a value it read
  has changed.
\<close>

definition watchEffect ::
  "('v, 'fs, 'ss) imported \<Rightarrow> 'v TableProps \<Rightarrow> ('f, 'so, 'fs, 'ss) hook_values
     \<Rightarrow> ('f, 'so, 'fs, 'ss) ChangeEventInfo" where
  "watchEffect ext props hooks =
     \<lparr>pagination =
        (if props_pagination props = PaginationFalse then empty_pagination
         else getPaginationParam ext (props_pagination props) (mergedPagination_value hooks)),
      filters = filters_value hooks,
      sorter = sorters_value hooks,
      filterStates = filterStates_value hooks,
      sorterStates = sortStates_value hooks\<rparr>"

subsection \<open>\<open>setup\<close> and the interactions that follow it\<close>

text \<open>
  The state of a mounted table: the hooks' current values and the snapshot
  \<open>changeEventInfo\<close>.
\<close>

record ('f, 'so, 'fs, 'ss) table_state =
  hooks :: "('f, 'so, 'fs, 'ss) hook_values"
  changeEventInfo :: "('f, 'so, 'fs, 'ss) ChangeEventInfo"

text \<open>
  \<open>setup\<close>, as far as it is modelled: the deprecation diagnostic on the \<open>rowKey\<close>
  function's declared parameters, then the rest of \<open>setup\<close>, whose \<open>watchEffect\<close> fills
  the snapshot. The result is the diagnostics emitted and the state of the mounted
  table.
\<close>

definition InteralTable_setup ::
  "('v, 'fs, 'ss) imported \<Rightarrow> 'v TableProps \<Rightarrow> ('f, 'so, 'fs, 'ss) hook_values
     \<Rightarrow> warning list \<times> ('f, 'so, 'fs, 'ss) table_state" where
  "InteralTable_setup ext props hooks0 =
     (devWarning
        (\<not> (case props_rowKey props of RowKeyFunction n f \<Rightarrow> n > 1 | _ \<Rightarrow> False))
        ''Table'' rowKey_index_message,
      \<lparr>hooks = hooks0, changeEventInfo = watchEffect ext props hooks0\<rparr>)"

text \<open>
  What happens to a mounted table: the sorter hook reports a sort change, the filter
  hook a filter change, the pagination widget a page change, or the hooks' values
  change and the \<open>watchEffect\<close> runs again.
\<close>

datatype ('f, 'so, 'fs, 'ss) interaction =
    SorterChange 'so 'ss
  | FilterChange 'f 'fs
  | PaginationChange int int
  | HooksChange "('f, 'so, 'fs, 'ss) hook_values"

text \<open>
  One interaction. A page change comes from the pagination widget, so there is none
  while the widget is not rendered.
\<close>

definition step ::
  "('v, 'fs, 'ss) imported \<Rightarrow> 'v TableProps \<Rightarrow> bool \<Rightarrow> ('f, 'so, 'fs, 'ss) table_state
     \<Rightarrow> ('f, 'so, 'fs, 'ss) interaction
     \<Rightarrow> ('f, 'so, 'fs, 'ss) table_state \<times> ('v, 'f, 'so) event list" where
  "step ext props body st i =
     (case i of
        SorterChange s ss \<Rightarrow>
          (let (c, evs) = onSorterChange ext props body (changeEventInfo st) s ss
           in (st\<lparr>changeEventInfo := c\<rparr>, evs))
      | FilterChange f fs \<Rightarrow>
          (let (c, evs) = onFilterChange ext props body (changeEventInfo st) f fs
           in (st\<lparr>changeEventInfo := c\<rparr>, evs))
      | PaginationChange cur size' \<Rightarrow>
          (if pagination_rendered props (hooks st)
           then (let (c, evs) = onPaginationChange ext props body (changeEventInfo st) cur size'
                 in (st\<lparr>changeEventInfo := c\<rparr>, evs))
           else (st, []))
      | HooksChange h \<Rightarrow>
          (\<lparr>hooks = h, changeEventInfo = watchEffect ext props h\<rparr>, []))"

text \<open>
  A sequence of interactions: for each one, the state it met, the interaction and the
  events it caused.
\<close>

fun run ::
  "('v, 'fs, 'ss) imported \<Rightarrow> 'v TableProps \<Rightarrow> bool \<Rightarrow> ('f, 'so, 'fs, 'ss) table_state
     \<Rightarrow> ('f, 'so, 'fs, 'ss) interaction list
     \<Rightarrow> (('f, 'so, 'fs, 'ss) table_state \<times> ('f, 'so, 'fs, 'ss) interaction
          \<times> ('v, 'f, 'so) event list) list" where
  "run ext props body st [] = []"
| "run ext props body st (i # rest) =
     (st, i, snd (step ext props body st i)) # run ext props body (fst (step ext props body st i)) rest"

text \<open>The change notifications among some events.\<close>

fun is_OnChange :: "('v, 'f, 'so) event \<Rightarrow> bool" where
  "is_OnChange (OnChange p f s d a) = True"
| "is_OnChange _ = False"

subsection \<open>Example inputs\<close>

text \<open>
  Concrete inputs for the instances below: three rows, stand-ins for the imported
  functions (sorting reverses unless the sort state is 0, filtering keeps the first
  rows, the pagination parameter copies the three numbers), props and hook values.
\<close>

definition example_row :: "int \<Rightarrow> int RecordType" where
  "example_row n = Some [''id'' \<mapsto> n]"

definition example_ext :: "(int, nat, nat) imported" where
  "example_ext =
     \<lparr>getSortData = (\<lambda>d ss c. if ss = 0 then d else rev d),
      getFilterData = (\<lambda>d fs. take fs d),
      getPaginationParam =
        (\<lambda>pg mp. \<lparr>current = current mp, pageSize = pageSize mp, total' = total' mp\<rparr>)\<rparr>"

definition example_props :: "pagination_prop \<Rightarrow> int TableProps" where
  "example_props pg =
     \<lparr>props_dataSource = Some [example_row 1, example_row 2, example_row 3],
      props_pagination = pg,
      props_rowKey = RowKeyName ''id'',
      props_childrenColumnName = None,
      props_scroll = Some \<lparr>scrollToFirstRowOnChange = None\<rparr>,
      props_onChange = True\<rparr>"

definition example_hooks :: "(nat, nat, nat, nat) hook_values" where
  "example_hooks =
     \<lparr>sorters_value = 0, sortStates_value = 1, filters_value = 0, filterStates_value = 2,
      mergedPagination_value =
        \<lparr>current = Some 2, pageSize = Some 1, total' = Some 2, has_onChange = True\<rparr>\<rparr>"

definition example_config :: TablePaginationConfig where
  "example_config = \<lparr>current = None, pageSize = None, total' = None, has_onChange = True\<rparr>"

section \<open>Properties\<close>

subsection \<open>Diagnostics and slices\<close>

lemma devWarning_current:
  "devWarning valid ''Table'' current_message = (if valid then [] else [current_warning])"
  by (simp add: devWarning_def current_warning_def)

lemma devWarning_dynamic_total:
  "devWarning False ''Table'' dynamic_total_message = [dynamic_total_warning]"
  by (simp add: devWarning_def dynamic_total_warning_def)

lemma devWarning_rowKey_index:
  "devWarning valid ''Table'' rowKey_index_message = (if valid then [] else [rowKey_index_warning])"
  by (simp add: devWarning_def rowKey_index_warning_def)

lemma js_slice_window:
  assumes "0 \<le> a" and "a \<le> b"
  shows "js_slice xs a b = take (nat (b - a)) (drop (nat a) xs)"
  using assms unfolding js_slice_def Let_def
  by (auto simp: min_def max_def)

lemma js_slice_page:
  assumes "0 < c" and "0 < p"
  shows "js_slice xs ((c - 1) * p) (c * p) = take (nat p) (drop (nat ((c - 1) * p)) xs)"
proof -
  have a: "0 \<le> (c - 1) * p" using assms by simp
  have b: "(c - 1) * p \<le> c * p" using assms by (simp add: mult_right_mono)
  have "c * p - (c - 1) * p = p" by (simp add: algebra_simps)
  with js_slice_window [OF a b, of xs] show ?thesis by simp
qed

lemma js_slice_subset: "set (js_slice xs a b) \<subseteq> set xs"
  unfolding js_slice_def Let_def
  by (meson set_drop_subset set_take_subset subset_trans)

lemma js_slice_end_zero: "js_slice xs a 0 = []"
  unfolding js_slice_def Let_def by (auto simp: min_def max_def)

lemmas example_defs = example_ext_def example_props_def example_hooks_def example_config_def

subsection \<open>The visible page\<close>

lemma pageData_paged:
  assumes "pg \<noteq> PaginationFalse" and "pageSize mp = Some p" and "p \<noteq> 0"
    and "cur = (case current mp of None \<Rightarrow> 1 | Some c \<Rightarrow> c)"
  shows "pageData D pg mp md =
     (if js_less_opt (int (length md)) (total' mp) \<and> int (length md) \<le> p
      then ((if 0 < cur then [] else [current_warning]), md)
      else ((if 0 < cur then [] else [current_warning]) @
            (if js_less_opt (int (length md)) (total' mp) then [dynamic_total_warning] else []),
            js_slice md ((cur - 1) * p) (cur * p)))"
  using assms
  by (simp add: pageData_def truthy_def Let_def devWarning_current devWarning_dynamic_total)

text \<open>
  C1 (as amended). With pagination enabled, a truthy \<open>pageSize\<close> and a \<open>total\<close> above the
  length of the sorted and filtered data: when the length does not exceed \<open>pageSize\<close>
  the page is the whole data, unsliced, and the inconsistent-total diagnostic is not
  emitted (the only diagnostic possible is the one on a non-positive \<open>current\<close>); when
  the length exceeds \<open>pageSize\<close> the page is
  \<open>slice((current - 1) * pageSize, current * pageSize)\<close> and the inconsistent-total
  diagnostic is emitted.
\<close>

theorem C1_dynamic_total:
  assumes "pg \<noteq> PaginationFalse" and "pageSize mp = Some p" and "p \<noteq> 0"
    and "cur = (case current mp of None \<Rightarrow> 1 | Some c \<Rightarrow> c)"
    and "total' mp = Some t" and "int (length md) < t"
  shows "(int (length md) \<le> p \<longrightarrow>
            pageData D pg mp md = ((if 0 < cur then [] else [current_warning]), md)) \<and>
         (p < int (length md) \<longrightarrow>
            pageData D pg mp md =
              ((if 0 < cur then [] else [current_warning]) @ [dynamic_total_warning],
               js_slice md ((cur - 1) * p) (cur * p)))"
  using assms pageData_paged [OF assms(1-4), of D md]
  by (simp add: js_less_opt_def)

theorem C1_dynamic_total_witness:
  "pageData 10 PaginationUndefined
      \<lparr>current = Some 1, pageSize = Some 10, total' = Some 100, has_onChange = False\<rparr>
      [1, 2, 3 :: int] = ([], [1, 2, 3]) \<and>
   pageData 10 PaginationUndefined
      \<lparr>current = Some 1, pageSize = Some 2, total' = Some 100, has_onChange = False\<rparr>
      [1, 2, 3 :: int] = ([dynamic_total_warning], [1, 2])"
  using C1_dynamic_total [of PaginationUndefined
      "\<lparr>current = Some 1, pageSize = Some 10, total' = Some 100, has_onChange = False\<rparr>"
      10 1 100 "[1, 2, 3 :: int]" 10]
    C1_dynamic_total [of PaginationUndefined
      "\<lparr>current = Some 1, pageSize = Some 2, total' = Some 100, has_onChange = False\<rparr>"
      2 1 100 "[1, 2, 3 :: int]" 10]
  by (simp add: js_slice_def)

text \<open>
  C1 as stated fails on its own scenario: with \<open>total\<close> 100, three loaded rows and
  \<open>pageSize\<close> 10 the whole data is returned and no diagnostic at all is emitted.
\<close>

theorem C1_counterexample:
  "fst (pageData 10 PaginationUndefined
      \<lparr>current = Some 1, pageSize = Some 10, total' = Some 100, has_onChange = False\<rparr>
      [1, 2, 3 :: int]) = []"
  by (simp add: pageData_def truthy_def js_less_opt_def devWarning_def)

text \<open>
  C4. With pagination enabled, positive \<open>current\<close> and \<open>pageSize\<close> and a dataset at least
  as long as the configured \<open>total\<close> (or no \<open>total\<close>), the visible page is
  \<open>slice((current - 1) * pageSize, current * pageSize)\<close>, that is \<open>pageSize\<close> rows after
  skipping \<open>(current - 1) * pageSize\<close>, and nothing is diagnosed; with \<open>pageSize\<close> 2,
  \<open>current\<close> 2 and three rows the page is the single row at index 2.
\<close>

theorem C4_page_slice:
  "(pg \<noteq> PaginationFalse \<and> pageSize mp = Some p \<and> 0 < p \<and>
      cur = (case current mp of None \<Rightarrow> 1 | Some c \<Rightarrow> c) \<and> 0 < cur \<and>
      \<not> js_less_opt (int (length md)) (total' mp)
    \<longrightarrow> pageData D pg mp md = ([], js_slice md ((cur - 1) * p) (cur * p)) \<and>
        js_slice md ((cur - 1) * p) (cur * p) = take (nat p) (drop (nat ((cur - 1) * p)) md)) \<and>
   (pg \<noteq> PaginationFalse \<and> pageSize mp = Some 2 \<and> current mp = Some 2 \<and>
      \<not> js_less_opt (int (length md)) (total' mp) \<and> length md = 3
    \<longrightarrow> snd (pageData D pg mp md) = [md ! 2])"
proof (intro conjI impI)
  assume h: "pg \<noteq> PaginationFalse \<and> pageSize mp = Some p \<and> 0 < p \<and>
      cur = (case current mp of None \<Rightarrow> 1 | Some c \<Rightarrow> c) \<and> 0 < cur \<and>
      \<not> js_less_opt (int (length md)) (total' mp)"
  then have p: "p \<noteq> 0" and pg: "pg \<noteq> PaginationFalse" and ps: "pageSize mp = Some p"
    and cur: "cur = (case current mp of None \<Rightarrow> 1 | Some c \<Rightarrow> c)" by simp_all
  show "pageData D pg mp md = ([], js_slice md ((cur - 1) * p) (cur * p))"
    using h by (simp add: pageData_paged [OF pg ps p cur])
  from h show "js_slice md ((cur - 1) * p) (cur * p) = take (nat p) (drop (nat ((cur - 1) * p)) md)"
    by (simp add: js_slice_page)
next
  assume h: "pg \<noteq> PaginationFalse \<and> pageSize mp = Some 2 \<and> current mp = Some 2 \<and>
      \<not> js_less_opt (int (length md)) (total' mp) \<and> length md = 3"
  then obtain a b c where md: "md = [a, b, c]"
    by (metis length_0_conv length_Suc_conv numeral_3_eq_3)
  have cur: "2 = (case current mp of None \<Rightarrow> 1 | Some c \<Rightarrow> c)" using h by simp
  have pg: "pg \<noteq> PaginationFalse" and ps: "pageSize mp = Some 2"
    and t: "\<not> js_less_opt (int (length md)) (total' mp)" using h by blast+
  have "pageData D pg mp md = ([], js_slice md ((2 - 1) * 2) (2 * 2))"
    using t by (simp add: pageData_paged [OF pg ps _ cur])
  then have "snd (pageData D pg mp md) = js_slice md 2 4" by simp
  also have "\<dots> = [md ! 2]" by (simp add: md js_slice_def)
  finally show "snd (pageData D pg mp md) = [md ! 2]" .
qed

theorem C4_page_slice_witness:
  "pageData 10 PaginationUndefined
      \<lparr>current = Some 2, pageSize = Some 2, total' = Some 3, has_onChange = False\<rparr>
      [''a'', ''b'', ''c''] = ([], [''c''])"
proof -
  let ?mp = "\<lparr>current = Some 2, pageSize = Some 2, total' = Some 3, has_onChange = False\<rparr>"
  have "pageData 10 PaginationUndefined ?mp [''a'', ''b'', ''c''] =
          ([], js_slice [''a'', ''b'', ''c''] ((2 - 1) * 2) (2 * 2))"
    using C4_page_slice [of PaginationUndefined ?mp 2 2 "[''a'', ''b'', ''c'']" 10]
    by (simp add: js_less_opt_def)
  then show ?thesis by (simp add: js_slice_def)
qed

text \<open>
  C9. When pagination is not the literal \<open>false\<close> but the merged \<open>pageSize\<close> is
  \<open>undefined\<close> or 0, the visible page is the whole dataset, as with pagination disabled,
  and no diagnostic is emitted.
\<close>

theorem C9_falsy_pageSize:
  assumes "pg \<noteq> PaginationFalse" and "pageSize mp = None \<or> pageSize mp = Some 0"
  shows "pageData D pg mp md = ([], md) \<and>
         pageData D pg mp md = pageData D PaginationFalse mp md"
  using assms by (auto simp: pageData_def truthy_def)

theorem C9_falsy_pageSize_witness:
  "pageData 10 PaginationUndefined
      \<lparr>current = Some 0, pageSize = Some 0, total' = Some 100, has_onChange = False\<rparr>
      [1, 2, 3 :: int] = ([], [1, 2, 3]) \<and>
   pageData 10 (PaginationConfig \<lparr>current = None, pageSize = None, total' = None, has_onChange = False\<rparr>)
      \<lparr>current = Some 3, pageSize = None, total' = Some 1, has_onChange = False\<rparr>
      [1, 2, 3 :: int] = ([], [1, 2, 3])"
  using C9_falsy_pageSize [of PaginationUndefined
      "\<lparr>current = Some 0, pageSize = Some 0, total' = Some 100, has_onChange = False\<rparr>"
      10 "[1, 2, 3 :: int]"]
    C9_falsy_pageSize [of "PaginationConfig \<lparr>current = None, pageSize = None, total' = None, has_onChange = False\<rparr>"
      "\<lparr>current = Some 3, pageSize = None, total' = Some 1, has_onChange = False\<rparr>"
      10 "[1, 2, 3 :: int]"]
  by simp

text \<open>
  C7 as stated fails twice: with \<open>current\<close> 0 and \<open>pageSize\<close> 0 no diagnostic is emitted,
  and with \<open>current\<close> 0, \<open>pageSize\<close> 2 and three rows the page is empty.
\<close>

theorem C7_counterexample:
  "fst (pageData 10 PaginationUndefined
      \<lparr>current = Some 0, pageSize = Some 0, total' = Some 3, has_onChange = False\<rparr>
      [1, 2, 3 :: int]) = [] \<and>
   pageData 10 PaginationUndefined
      \<lparr>current = Some 0, pageSize = Some 2, total' = Some 3, has_onChange = False\<rparr>
      [1, 2, 3 :: int] = ([current_warning], [])"
  by (simp add: pageData_def truthy_def js_less_opt_def devWarning_current js_slice_def)

text \<open>
  C7 (as amended). With pagination enabled, a truthy \<open>pageSize\<close> and a non-positive
  \<open>current\<close>, the positivity diagnostic is emitted first (followed only by the
  inconsistent-total one, when that applies) and \<open>pageData\<close> still returns a page made
  of rows of the dataset: the whole dataset when it is shorter than \<open>total\<close>
  and no longer than \<open>pageSize\<close>, otherwise the slice whose negative start counts from
  the end of the dataset; for \<open>current\<close> 0 that slice is empty.
\<close>

theorem C7_nonpositive_current:
  assumes "pg \<noteq> PaginationFalse" and "pageSize mp = Some p" and "p \<noteq> 0"
    and "current mp = Some c" and "c \<le> 0"
  shows "fst (pageData D pg mp md) =
           current_warning #
           (if js_less_opt (int (length md)) (total' mp) \<and> p < int (length md)
            then [dynamic_total_warning] else []) \<and>
         snd (pageData D pg mp md) =
           (if js_less_opt (int (length md)) (total' mp) \<and> int (length md) \<le> p then md
            else js_slice md ((c - 1) * p) (c * p)) \<and>
         set (snd (pageData D pg mp md)) \<subseteq> set md \<and>
         (c = 0 \<and> \<not> (js_less_opt (int (length md)) (total' mp) \<and> int (length md) \<le> p)
            \<longrightarrow> snd (pageData D pg mp md) = [])"
proof -
  have cur: "c = (case current mp of None \<Rightarrow> 1 | Some c \<Rightarrow> c)" using assms(4) by simp
  note eq = pageData_paged [OF assms(1-3) cur, of D md]
  have 1: "fst (pageData D pg mp md) =
           current_warning #
           (if js_less_opt (int (length md)) (total' mp) \<and> p < int (length md)
            then [dynamic_total_warning] else [])"
    using assms(5) by (simp add: eq)
  have 2: "snd (pageData D pg mp md) =
           (if js_less_opt (int (length md)) (total' mp) \<and> int (length md) \<le> p then md
            else js_slice md ((c - 1) * p) (c * p))"
    by (simp add: eq)
  have 3: "set (snd (pageData D pg mp md)) \<subseteq> set md"
    using js_slice_subset [of md "(c - 1) * p" "c * p"] by (simp add: 2)
  have 4: "c = 0 \<and> \<not> (js_less_opt (int (length md)) (total' mp) \<and> int (length md) \<le> p)
            \<longrightarrow> snd (pageData D pg mp md) = []"
    using js_slice_end_zero [of md "- p"] by (auto simp: 2)
  from 1 2 3 4 show ?thesis by blast
qed

theorem C7_nonpositive_current_witness:
  "pageData 10 PaginationUndefined
      \<lparr>current = Some (- 1), pageSize = Some 2, total' = Some 5, has_onChange = False\<rparr>
      [1, 2, 3, 4, 5 :: int] = ([current_warning], [2, 3])"
proof -
  let ?mp = "\<lparr>current = Some (- 1), pageSize = Some 2, total' = Some 5, has_onChange = False\<rparr>"
  let ?md = "[1, 2, 3, 4, 5 :: int]"
  have w: "fst (pageData 10 PaginationUndefined ?mp ?md) = [current_warning]"
    and s: "snd (pageData 10 PaginationUndefined ?mp ?md) = js_slice ?md (- 4) (- 2)"
    using C7_nonpositive_current [of PaginationUndefined ?mp 2 "- 1" 10 ?md]
    by (simp_all add: js_less_opt_def)
  have "js_slice ?md (- 4) (- 2) = [2, 3]" by (simp add: js_slice_def)
  with w s show ?thesis by (simp add: prod_eq_iff)
qed

subsection \<open>The change notification\<close>

lemma triggerOnChange_events:
  "snd (triggerOnChange ext props body cei info action reset) =
     (if reset
      then ResetPagination #
        (case props_pagination props of
           PaginationConfig c \<Rightarrow>
             (if has_onChange c then [PaginationOnChange 1 (pageSize (pagination (spread cei info)))]
              else [])
         | _ \<Rightarrow> [])
      else []) @
     (case props_scroll props of
        None \<Rightarrow> []
      | Some s \<Rightarrow> (if scrollToFirstRowOnChange s \<noteq> Some False \<and> body then [ScrollTo] else [])) @
     (if props_onChange props
      then [OnChange
              (if reset \<and> truthy (current (pagination (spread cei info)))
               then (pagination (spread cei info))\<lparr>current := Some 1\<rparr>
               else pagination (spread cei info))
              (filters (spread cei info)) (sorter (spread cei info))
              (getFilterData ext
                 (getSortData ext (rawData props) (sorterStates (spread cei info))
                    (childrenColumnName props))
                 (filterStates (spread cei info)))
              action]
      else [])"
  by (simp add: triggerOnChange_def Let_def split: pagination_prop.splits)

lemma triggerOnChange_snapshot:
  "fst (triggerOnChange ext props body cei info action reset) =
     (if partial_pagination info = None
      then cei\<lparr>pagination :=
             (if reset \<and> truthy (current (pagination (spread cei info)))
              then (pagination (spread cei info))\<lparr>current := Some 1\<rparr>
              else pagination (spread cei info))\<rparr>
      else cei)"
  by (simp add: triggerOnChange_def Let_def)

text \<open>
  C3 (as amended). A call of \<open>triggerOnChange\<close> with reset requested makes its calls in
  this order: the pagination reset operation; \<open>pagination.onChange(1, pageSize)\<close> when
  the \<open>pagination\<close> prop is an object with that handler; \<open>scrollTo\<close> when configured;
  and the change notification when an \<open>onChange\<close> handler is configured. So the
  reset comes first, and the pagination handler, when called, is the second call and
  comes before the notification. The notification carries \<open>pagination.current\<close> equal to 1 exactly when the merged record's
  \<open>current\<close> was truthy; an absent \<open>current\<close> (pagination disabled) and a \<open>current\<close> of 0
  are passed on as they are.
\<close>

theorem C3_reset_order:
  fixes evs :: "('v, 'f, 'so) event list"
  assumes "changeInfo = spread cei info"
    and "evs = snd (triggerOnChange ext props body cei info action True)"
  shows "evs =
           ResetPagination #
           (case props_pagination props of
              PaginationConfig c \<Rightarrow>
                (if has_onChange c then [PaginationOnChange 1 (pageSize (pagination changeInfo))]
                 else [])
            | _ \<Rightarrow> []) @
           (case props_scroll props of
              None \<Rightarrow> []
            | Some s \<Rightarrow>
                (if scrollToFirstRowOnChange s \<noteq> Some False \<and> body then [ScrollTo] else [])) @
           (if props_onChange props
            then [OnChange
                    ((pagination changeInfo)
                       \<lparr>current := (if truthy (current (pagination changeInfo)) then Some 1
                                    else current (pagination changeInfo))\<rparr>)
                    (filters changeInfo) (sorter changeInfo)
                    (getFilterData ext
                       (getSortData ext (rawData props) (sorterStates changeInfo)
                          (childrenColumnName props))
                       (filterStates changeInfo))
                    action]
            else []) \<and>
         hd evs = ResetPagination \<and>
         (\<forall>c. props_pagination props = PaginationConfig c \<and> has_onChange c \<longrightarrow>
            evs ! 1 = PaginationOnChange 1 (pageSize (pagination changeInfo)) \<and>
            (\<forall>n < length evs. is_OnChange (evs ! n) \<longrightarrow> 1 < n)) \<and>
         (\<forall>q f s d a. OnChange q f s d a \<in> set evs \<longrightarrow>
            current q = (if truthy (current (pagination changeInfo)) then Some 1
                         else current (pagination changeInfo)))"
proof -
  let ?handler = "case props_pagination props of
              PaginationConfig c \<Rightarrow>
                (if has_onChange c then [PaginationOnChange 1 (pageSize (pagination changeInfo))]
                 else [])
            | _ \<Rightarrow> []"
  let ?scrolls = "case props_scroll props of
              None \<Rightarrow> []
            | Some s \<Rightarrow>
                (if scrollToFirstRowOnChange s \<noteq> Some False \<and> body then [ScrollTo] else [])"
  let ?notification = "if props_onChange props
            then [OnChange
                    ((pagination changeInfo)
                       \<lparr>current := (if truthy (current (pagination changeInfo)) then Some 1
                                    else current (pagination changeInfo))\<rparr>)
                    (filters changeInfo) (sorter changeInfo)
                    (getFilterData ext
                       (getSortData ext (rawData props) (sorterStates changeInfo)
                          (childrenColumnName props))
                       (filterStates changeInfo))
                    action]
            else []"
  have trace: "evs = ResetPagination # ?handler @ ?scrolls @ ?notification"
    unfolding assms triggerOnChange_events by simp
  have first: "hd evs = ResetPagination" by (simp add: trace)
  have second: "evs ! 1 = PaginationOnChange 1 (pageSize (pagination changeInfo)) \<and>
            (\<forall>n < length evs. is_OnChange (evs ! n) \<longrightarrow> 1 < n)"
    if c: "props_pagination props = PaginationConfig c \<and> has_onChange c" for c
  proof -
    from c have h: "?handler = [PaginationOnChange 1 (pageSize (pagination changeInfo))]" by simp
    have t: "evs = ResetPagination # PaginationOnChange 1 (pageSize (pagination changeInfo)) #
                ?scrolls @ ?notification"
      unfolding trace h by simp
    have "1 < n" if "n < length evs" and "is_OnChange (evs ! n)" for n
    proof (cases n)
      case 0
      with that t show ?thesis by (metis is_OnChange.simps(2) nth_Cons_0)
    next
      case (Suc m)
      show ?thesis
      proof (cases m)
        case 0
        with Suc that t show ?thesis
          by (metis One_nat_def is_OnChange.simps(3) nth_Cons_0 nth_Cons_Suc)
      next
        case (Suc k)
        with \<open>n = Suc m\<close> show ?thesis by simp
      qed
    qed
    moreover have "evs ! 1 = PaginationOnChange 1 (pageSize (pagination changeInfo))"
      by (subst t) simp
    ultimately show ?thesis by blast
  qed
  have third: "current q = (if truthy (current (pagination changeInfo)) then Some 1
                         else current (pagination changeInfo))"
    if "OnChange q f s d a \<in> set evs" for q f s d a
    using that unfolding trace
    by (auto split: pagination_prop.splits option.splits if_splits)
  from trace first second third show ?thesis by blast
qed

theorem C3_reset_order_witness:
  "snd (triggerOnChange example_ext (example_props (PaginationConfig example_config)) True
          (watchEffect example_ext (example_props (PaginationConfig example_config)) example_hooks)
          \<lparr>partial_pagination = None, partial_filters = Some 5, partial_sorter = None,
           partial_filterStates = Some 3, partial_sorterStates = None\<rparr>
          ActionFilter True) =
   [ResetPagination, PaginationOnChange 1 (Some 1), ScrollTo,
    OnChange \<lparr>current = Some 1, pageSize = Some 1, total' = Some 2\<rparr> 5 0
      [example_row 3, example_row 2, example_row 1] ActionFilter]"
proof -
  let ?P = "example_props (PaginationConfig example_config)"
  let ?cei = "watchEffect example_ext ?P example_hooks"
  let ?info = "\<lparr>partial_pagination = None, partial_filters = Some (5 :: nat),
      partial_sorter = None :: nat option, partial_filterStates = Some (3 :: nat),
      partial_sorterStates = None :: nat option\<rparr>"
  note trace = C3_reset_order [OF refl refl, where ext = example_ext and props = ?P
      and body = True and cei = ?cei and info = ?info and action = ActionFilter, THEN conjunct1]
  show ?thesis
    by (subst trace)
      (simp add: example_defs watchEffect_def spread_def truthy_def rawData_def
        childrenColumnName_def)
qed

text \<open>
  C3 as stated fails when pagination is the literal \<open>false\<close>: the snapshot's pagination
  is the empty object, and the notification of a filter change carries no \<open>current\<close>.
\<close>

theorem C3_counterexample:
  "snd (triggerOnChange example_ext (example_props PaginationFalse) True
          (watchEffect example_ext (example_props PaginationFalse) example_hooks)
          \<lparr>partial_pagination = None, partial_filters = Some 5, partial_sorter = None,
           partial_filterStates = Some 3, partial_sorterStates = None\<rparr>
          ActionFilter True) =
   [ResetPagination, ScrollTo,
    OnChange \<lparr>current = None, pageSize = None, total' = None\<rparr> 5 0
      [example_row 3, example_row 2, example_row 1] ActionFilter]"
  by (simp add: triggerOnChange_events example_defs watchEffect_def spread_def truthy_def
      empty_pagination_def rawData_def childrenColumnName_def)

subsection \<open>Sequences of interactions\<close>

lemma run_events:
  "(st, i, evs) \<in> set (run ext props body st0 interactions) \<Longrightarrow>
     evs = snd (step ext props body st i)"
  by (induction interactions arbitrary: st0) auto

lemma step_FilterChange:
  "step ext props body st (FilterChange f fs) =
     (st\<lparr>changeEventInfo := fst (onFilterChange ext props body (changeEventInfo st) f fs)\<rparr>,
      snd (onFilterChange ext props body (changeEventInfo st) f fs))"
  by (simp add: step_def split_beta)

lemma step_SorterChange:
  "step ext props body st (SorterChange s ss) =
     (st\<lparr>changeEventInfo := fst (onSorterChange ext props body (changeEventInfo st) s ss)\<rparr>,
      snd (onSorterChange ext props body (changeEventInfo st) s ss))"
  by (simp add: step_def split_beta)

lemma step_PaginationChange:
  "step ext props body st (PaginationChange c p) =
     (if pagination_rendered props (hooks st)
      then (st\<lparr>changeEventInfo := fst (onPaginationChange ext props body (changeEventInfo st) c p)\<rparr>,
            snd (onPaginationChange ext props body (changeEventInfo st) c p))
      else (st, []))"
  by (simp add: step_def split_beta)

lemma step_HooksChange:
  "step ext props body st (HooksChange h) =
     (\<lparr>hooks = h, changeEventInfo = watchEffect ext props h\<rparr>, [])"
  by (simp add: step_def)

lemma run_all:
  assumes "\<And>st i. Q st i (snd (step ext props body st i))"
  shows "\<forall>(st, i, evs) \<in> set (run ext props body st0 interactions). Q st i evs"
  using assms by (auto dest: run_events)

lemma onFilterChange_events:
  "snd (onFilterChange ext props body cei f fs) =
     ResetPagination #
     (case props_pagination props of
        PaginationConfig c \<Rightarrow>
          (if has_onChange c then [PaginationOnChange 1 (pageSize (pagination cei))] else [])
      | _ \<Rightarrow> []) @
     (case props_scroll props of
        None \<Rightarrow> []
      | Some s \<Rightarrow> (if scrollToFirstRowOnChange s \<noteq> Some False \<and> body then [ScrollTo] else [])) @
     (if props_onChange props
      then [OnChange
              ((pagination cei)
                 \<lparr>current := (if truthy (current (pagination cei)) then Some 1
                              else current (pagination cei))\<rparr>)
              f (sorter cei)
              (getFilterData ext
                 (getSortData ext (rawData props) (sorterStates cei) (childrenColumnName props))
                 fs)
              ActionFilter]
      else [])"
  by (auto simp: onFilterChange_def triggerOnChange_events spread_def
      split: pagination_prop.splits)

lemma onFilterChange_snapshot:
  "fst (onFilterChange ext props body cei f fs) =
     cei\<lparr>pagination :=
           (pagination cei)
             \<lparr>current := (if truthy (current (pagination cei)) then Some 1
                          else current (pagination cei))\<rparr>\<rparr>"
  by (simp add: onFilterChange_def triggerOnChange_snapshot spread_def)

lemma onSorterChange_events:
  "snd (onSorterChange ext props body cei s ss) =
     (case props_scroll props of
        None \<Rightarrow> []
      | Some sc \<Rightarrow> (if scrollToFirstRowOnChange sc \<noteq> Some False \<and> body then [ScrollTo] else [])) @
     (if props_onChange props
      then [OnChange (pagination cei) (filters cei) s
              (getFilterData ext
                 (getSortData ext (rawData props) ss (childrenColumnName props))
                 (filterStates cei))
              ActionSort]
      else [])"
  by (simp add: onSorterChange_def triggerOnChange_events spread_def)

lemma onSorterChange_snapshot: "fst (onSorterChange ext props body cei s ss) = cei"
  by (simp add: onSorterChange_def triggerOnChange_snapshot spread_def)

lemma onPaginationChange_events:
  "snd (onPaginationChange ext props body cei c p) =
     (case props_scroll props of
        None \<Rightarrow> []
      | Some sc \<Rightarrow> (if scrollToFirstRowOnChange sc \<noteq> Some False \<and> body then [ScrollTo] else [])) @
     (if props_onChange props
      then [OnChange ((pagination cei)\<lparr>current := Some c, pageSize := Some p\<rparr>)
              (filters cei) (sorter cei)
              (getFilterData ext
                 (getSortData ext (rawData props) (sorterStates cei) (childrenColumnName props))
                 (filterStates cei))
              ActionPaginate]
      else [])"
  by (simp add: onPaginationChange_def triggerOnChange_events spread_def)

lemma onPaginationChange_snapshot: "fst (onPaginationChange ext props body cei c p) = cei"
  by (simp add: onPaginationChange_def triggerOnChange_snapshot spread_def)

lemma onFilterChange_reset:
  fixes evs :: "('v, 'f, 'so) event list"
  assumes "evs = snd (onFilterChange ext props body cei f fs)"
  shows "evs =
           ResetPagination #
           (case props_pagination props of
              PaginationConfig c \<Rightarrow>
                (if has_onChange c then [PaginationOnChange 1 (pageSize (pagination cei))] else [])
            | _ \<Rightarrow> []) @
           (case props_scroll props of
              None \<Rightarrow> []
            | Some sc \<Rightarrow>
                (if scrollToFirstRowOnChange sc \<noteq> Some False \<and> body then [ScrollTo] else [])) @
           (if props_onChange props
            then [OnChange
                    ((pagination cei)
                       \<lparr>current := (if truthy (current (pagination cei)) then Some 1
                                    else current (pagination cei))\<rparr>)
                    f (sorter cei)
                    (getFilterData ext
                       (getSortData ext (rawData props) (sorterStates cei)
                          (childrenColumnName props))
                       fs)
                    ActionFilter]
            else []) \<and>
         evs \<noteq> [] \<and> hd evs = ResetPagination \<and> count_list evs ResetPagination = 1 \<and>
         (\<forall>c p. PaginationOnChange c p \<in> set evs \<longrightarrow>
            c = 1 \<and> p = pageSize (pagination cei)) \<and>
         (\<forall>c. props_pagination props = PaginationConfig c \<and> has_onChange c \<longrightarrow>
            evs ! 1 = PaginationOnChange 1 (pageSize (pagination cei))) \<and>
         (props_onChange props \<longrightarrow>
            length (filter is_OnChange evs) = 1 \<and>
            last evs =
              OnChange
                ((pagination cei)
                   \<lparr>current := (if truthy (current (pagination cei)) then Some 1
                                else current (pagination cei))\<rparr>)
                f (sorter cei)
                (getFilterData ext
                   (getSortData ext (rawData props) (sorterStates cei)
                      (childrenColumnName props))
                   fs)
                ActionFilter)"
  unfolding assms onFilterChange_events
  by (auto split: pagination_prop.splits option.splits)

lemma onSorterChange_no_reset:
  fixes evs :: "('v, 'f, 'so) event list"
  assumes "evs = snd (onSorterChange ext props body cei s ss)"
  shows "evs =
           (case props_scroll props of
              None \<Rightarrow> []
            | Some sc \<Rightarrow>
                (if scrollToFirstRowOnChange sc \<noteq> Some False \<and> body then [ScrollTo] else [])) @
           (if props_onChange props
            then [OnChange (pagination cei) (filters cei) s
                    (getFilterData ext
                       (getSortData ext (rawData props) ss (childrenColumnName props))
                       (filterStates cei))
                    ActionSort]
            else []) \<and>
         ResetPagination \<notin> set evs \<and> (\<forall>c p. PaginationOnChange c p \<notin> set evs) \<and>
         (props_onChange props \<longrightarrow>
            length (filter is_OnChange evs) = 1 \<and>
            last evs =
              OnChange (pagination cei) (filters cei) s
                (getFilterData ext
                   (getSortData ext (rawData props) ss (childrenColumnName props))
                   (filterStates cei))
                ActionSort)"
  unfolding assms onSorterChange_events
  by (auto split: option.splits)

lemma onPaginationChange_no_reset:
  fixes evs :: "('v, 'f, 'so) event list"
  assumes "evs = snd (onPaginationChange ext props body cei c p)"
  shows "evs =
           (case props_scroll props of
              None \<Rightarrow> []
            | Some sc \<Rightarrow>
                (if scrollToFirstRowOnChange sc \<noteq> Some False \<and> body then [ScrollTo] else [])) @
           (if props_onChange props
            then [OnChange ((pagination cei)\<lparr>current := Some c, pageSize := Some p\<rparr>)
                    (filters cei) (sorter cei)
                    (getFilterData ext
                       (getSortData ext (rawData props) (sorterStates cei)
                          (childrenColumnName props))
                       (filterStates cei))
                    ActionPaginate]
            else []) \<and>
         ResetPagination \<notin> set evs \<and> (\<forall>c' p'. PaginationOnChange c' p' \<notin> set evs) \<and>
         (props_onChange props \<longrightarrow>
            length (filter is_OnChange evs) = 1 \<and>
            last evs =
              OnChange ((pagination cei)\<lparr>current := Some c, pageSize := Some p\<rparr>)
                (filters cei) (sorter cei)
                (getFilterData ext
                   (getSortData ext (rawData props) (sorterStates cei)
                      (childrenColumnName props))
                   (filterStates cei))
                ActionPaginate)"
  unfolding assms onPaginationChange_events
  by (auto split: option.splits)

lemma step_FilterChange_rule:
  fixes ext :: "('v, 'fs, 'ss) imported" and st :: "('f, 'so, 'fs, 'ss) table_state"
    and evs :: "('v, 'f, 'so) event list"
  assumes "evs = snd (step ext props body st (FilterChange f fs))"
  shows "fst (step ext props body st (FilterChange f fs)) =
           st\<lparr>changeEventInfo :=
                (changeEventInfo st)
                  \<lparr>pagination :=
                     (pagination (changeEventInfo st))
                       \<lparr>current :=
                          (if truthy (current (pagination (changeEventInfo st))) then Some 1
                           else current (pagination (changeEventInfo st)))\<rparr>\<rparr>\<rparr> \<and>
         evs =
           ResetPagination #
           (case props_pagination props of
              PaginationConfig c \<Rightarrow>
                (if has_onChange c then [PaginationOnChange 1 (pageSize (pagination (changeEventInfo st)))] else [])
            | _ \<Rightarrow> []) @
           (case props_scroll props of
              None \<Rightarrow> []
            | Some sc \<Rightarrow>
                (if scrollToFirstRowOnChange sc \<noteq> Some False \<and> body then [ScrollTo] else [])) @
           (if props_onChange props
            then [OnChange
                    ((pagination (changeEventInfo st))
                       \<lparr>current := (if truthy (current (pagination (changeEventInfo st))) then Some 1
                                    else current (pagination (changeEventInfo st)))\<rparr>)
                    f (sorter (changeEventInfo st))
                    (getFilterData ext
                       (getSortData ext (rawData props) (sorterStates (changeEventInfo st))
                          (childrenColumnName props))
                       fs)
                    ActionFilter]
            else []) \<and>
         evs \<noteq> [] \<and> hd evs = ResetPagination \<and> count_list evs ResetPagination = 1 \<and>
         (\<forall>c p. PaginationOnChange c p \<in> set evs \<longrightarrow>
            c = 1 \<and> p = pageSize (pagination (changeEventInfo st))) \<and>
         (\<forall>c. props_pagination props = PaginationConfig c \<and> has_onChange c \<longrightarrow>
            evs ! 1 = PaginationOnChange 1 (pageSize (pagination (changeEventInfo st)))) \<and>
         (props_onChange props \<longrightarrow>
            length (filter is_OnChange evs) = 1 \<and>
            last evs =
              OnChange
                ((pagination (changeEventInfo st))
                   \<lparr>current := (if truthy (current (pagination (changeEventInfo st))) then Some 1
                                else current (pagination (changeEventInfo st)))\<rparr>)
                f (sorter (changeEventInfo st))
                (getFilterData ext
                   (getSortData ext (rawData props) (sorterStates (changeEventInfo st))
                      (childrenColumnName props))
                   fs)
                ActionFilter)"
proof -
  have e: "evs = snd (onFilterChange ext props body (changeEventInfo st) f fs)"
    by (simp add: assms step_FilterChange)
  have s: "fst (step ext props body st (FilterChange f fs)) =
      st\<lparr>changeEventInfo :=
           (changeEventInfo st)
             \<lparr>pagination :=
                (pagination (changeEventInfo st))
                  \<lparr>current :=
                     (if truthy (current (pagination (changeEventInfo st))) then Some 1
                      else current (pagination (changeEventInfo st)))\<rparr>\<rparr>\<rparr>"
    by (simp add: step_FilterChange onFilterChange_snapshot)
  show ?thesis by (rule conjI [OF s onFilterChange_reset [OF e]])
qed

lemma step_SorterChange_rule:
  fixes ext :: "('v, 'fs, 'ss) imported" and st :: "('f, 'so, 'fs, 'ss) table_state"
    and evs :: "('v, 'f, 'so) event list"
  assumes "evs = snd (step ext props body st (SorterChange s ss))"
  shows "fst (step ext props body st (SorterChange s ss)) = st \<and>
         pagination (changeEventInfo (fst (step ext props body st (SorterChange s ss)))) =
           pagination (changeEventInfo st) \<and>
         evs =
           (case props_scroll props of
              None \<Rightarrow> []
            | Some sc \<Rightarrow>
                (if scrollToFirstRowOnChange sc \<noteq> Some False \<and> body then [ScrollTo] else [])) @
           (if props_onChange props
            then [OnChange (pagination (changeEventInfo st)) (filters (changeEventInfo st)) s
                    (getFilterData ext
                       (getSortData ext (rawData props) ss (childrenColumnName props))
                       (filterStates (changeEventInfo st)))
                    ActionSort]
            else []) \<and>
         ResetPagination \<notin> set evs \<and> (\<forall>c p. PaginationOnChange c p \<notin> set evs) \<and>
         (props_onChange props \<longrightarrow>
            length (filter is_OnChange evs) = 1 \<and>
            last evs =
              OnChange (pagination (changeEventInfo st)) (filters (changeEventInfo st)) s
                (getFilterData ext
                   (getSortData ext (rawData props) ss (childrenColumnName props))
                   (filterStates (changeEventInfo st)))
                ActionSort)"
proof -
  have e: "evs = snd (onSorterChange ext props body (changeEventInfo st) s ss)"
    by (simp add: assms step_SorterChange)
  have s1: "fst (step ext props body st (SorterChange s ss)) = st"
    by (simp add: step_SorterChange onSorterChange_snapshot)
  have s2: "pagination (changeEventInfo (fst (step ext props body st (SorterChange s ss)))) =
      pagination (changeEventInfo st)"
    by (simp add: s1)
  show ?thesis by (rule conjI [OF s1 conjI [OF s2 onSorterChange_no_reset [OF e]]])
qed

lemma step_PaginationChange_rule:
  fixes ext :: "('v, 'fs, 'ss) imported" and st :: "('f, 'so, 'fs, 'ss) table_state"
    and evs :: "('v, 'f, 'so) event list"
  assumes "evs = snd (step ext props body st (PaginationChange c p))"
  shows "fst (step ext props body st (PaginationChange c p)) = st \<and>
         pagination (changeEventInfo (fst (step ext props body st (PaginationChange c p)))) =
           pagination (changeEventInfo st) \<and>
         ResetPagination \<notin> set evs \<and> (\<forall>c' p'. PaginationOnChange c' p' \<notin> set evs) \<and>
         (pagination_rendered props (hooks st) \<longrightarrow>
            evs =
              (case props_scroll props of
                 None \<Rightarrow> []
               | Some sc \<Rightarrow>
                   (if scrollToFirstRowOnChange sc \<noteq> Some False \<and> body then [ScrollTo] else [])) @
              (if props_onChange props
               then [OnChange ((pagination (changeEventInfo st))\<lparr>current := Some c, pageSize := Some p\<rparr>)
                       (filters (changeEventInfo st)) (sorter (changeEventInfo st))
                       (getFilterData ext
                          (getSortData ext (rawData props) (sorterStates (changeEventInfo st))
                             (childrenColumnName props))
                          (filterStates (changeEventInfo st)))
                       ActionPaginate]
               else []) \<and>
            ResetPagination \<notin> set evs \<and> (\<forall>c' p'. PaginationOnChange c' p' \<notin> set evs) \<and>
            (props_onChange props \<longrightarrow>
               length (filter is_OnChange evs) = 1 \<and>
               last evs =
                 OnChange ((pagination (changeEventInfo st))\<lparr>current := Some c, pageSize := Some p\<rparr>)
                   (filters (changeEventInfo st)) (sorter (changeEventInfo st))
                   (getFilterData ext
                      (getSortData ext (rawData props) (sorterStates (changeEventInfo st))
                         (childrenColumnName props))
                      (filterStates (changeEventInfo st)))
                   ActionPaginate)) \<and>
         (\<not> pagination_rendered props (hooks st) \<longrightarrow> evs = [])"
proof -
  have s1: "fst (step ext props body st (PaginationChange c p)) = st"
    by (simp add: step_PaginationChange onPaginationChange_snapshot)
  have s2: "pagination (changeEventInfo (fst (step ext props body st (PaginationChange c p)))) =
      pagination (changeEventInfo st)"
    by (simp add: s1)
  show ?thesis
  proof (cases "pagination_rendered props (hooks st)")
    case True
    have e: "evs = snd (onPaginationChange ext props body (changeEventInfo st) c p)"
      using True by (simp add: assms step_PaginationChange)
    note handler = onPaginationChange_no_reset [OF e]
    have n1: "ResetPagination \<notin> set evs"
      by (rule handler [THEN conjunct2, THEN conjunct1])
    have n2: "\<forall>c' p'. PaginationOnChange c' p' \<notin> set evs"
      by (rule handler [THEN conjunct2, THEN conjunct2, THEN conjunct1])
    have nr: "\<not> pagination_rendered props (hooks st) \<longrightarrow> evs = []"
      using True by simp
    show ?thesis
      by (rule conjI [OF s1 conjI [OF s2 conjI [OF n1 conjI [OF n2 conjI [OF impI [OF handler] nr]]]]])
  next
    case False
    have e: "evs = []"
      using False by (simp add: assms step_PaginationChange)
    have n1: "ResetPagination \<notin> set evs" and n2: "\<forall>c' p'. PaginationOnChange c' p' \<notin> set evs"
      by (simp_all add: e)
    have nr: "\<not> pagination_rendered props (hooks st) \<longrightarrow> evs = []"
      by (simp add: e)
    show ?thesis
      by (rule conjI [OF s1 conjI [OF s2 conjI [OF n1 conjI [OF n2
            conjI [OF impI [OF notE [OF False]] nr]]]]])
  qed
qed

text \<open>
  C2 (as amended). In every sequence of interactions, from any state, each interaction
  makes exactly the calls listed. A filter change calls the pagination reset operation,
  once and first, then \<open>pagination.onChange(1, pageSize)\<close> when that handler is
  configured, and notifies \<open>onChange\<close> (when configured) once, last, with action
  \<open>filter\<close>; the notification's pagination is the snapshot's with \<open>current\<close> set to 1
  when that \<open>current\<close> was truthy and passed on as it is when it was absent (pagination
  disabled) or 0, and the snapshot keeps that pagination. A sort change and a page
  change never call the reset operation nor \<open>pagination.onChange\<close>, leave the whole
  state as it was, and notify \<open>onChange\<close> once, last, with the snapshot's pagination
  (sort) or with the page and size reported by the widget (paginate).
\<close>

theorem C2_reset_rule:
  fixes ext :: "('v, 'fs, 'ss) imported" and st0 :: "('f, 'so, 'fs, 'ss) table_state"
  shows "\<forall>(st, i, evs) \<in> set (run ext props body st0 interactions).
     (case i of
        FilterChange f fs \<Rightarrow>
          fst (step ext props body st i) =
            st\<lparr>changeEventInfo :=
                 (changeEventInfo st)
                   \<lparr>pagination :=
                      (pagination (changeEventInfo st))
                        \<lparr>current :=
                           (if truthy (current (pagination (changeEventInfo st))) then Some 1
                            else current (pagination (changeEventInfo st)))\<rparr>\<rparr>\<rparr> \<and>
          evs =
            ResetPagination #
            (case props_pagination props of
               PaginationConfig c \<Rightarrow>
                 (if has_onChange c then [PaginationOnChange 1 (pageSize (pagination (changeEventInfo st)))] else [])
             | _ \<Rightarrow> []) @
            (case props_scroll props of
               None \<Rightarrow> []
             | Some sc \<Rightarrow>
                 (if scrollToFirstRowOnChange sc \<noteq> Some False \<and> body then [ScrollTo] else [])) @
            (if props_onChange props
             then [OnChange
                     ((pagination (changeEventInfo st))
                        \<lparr>current := (if truthy (current (pagination (changeEventInfo st))) then Some 1
                                     else current (pagination (changeEventInfo st)))\<rparr>)
                     f (sorter (changeEventInfo st))
                     (getFilterData ext
                        (getSortData ext (rawData props) (sorterStates (changeEventInfo st))
                           (childrenColumnName props))
                        fs)
                     ActionFilter]
             else []) \<and>
          evs \<noteq> [] \<and> hd evs = ResetPagination \<and> count_list evs ResetPagination = 1 \<and>
          (\<forall>c p. PaginationOnChange c p \<in> set evs \<longrightarrow>
             c = 1 \<and> p = pageSize (pagination (changeEventInfo st))) \<and>
          (\<forall>c. props_pagination props = PaginationConfig c \<and> has_onChange c \<longrightarrow>
             evs ! 1 = PaginationOnChange 1 (pageSize (pagination (changeEventInfo st)))) \<and>
          (props_onChange props \<longrightarrow>
             length (filter is_OnChange evs) = 1 \<and>
             last evs =
               OnChange
                 ((pagination (changeEventInfo st))
                    \<lparr>current := (if truthy (current (pagination (changeEventInfo st))) then Some 1
                                 else current (pagination (changeEventInfo st)))\<rparr>)
                 f (sorter (changeEventInfo st))
                 (getFilterData ext
                    (getSortData ext (rawData props) (sorterStates (changeEventInfo st))
                       (childrenColumnName props))
                    fs)
                 ActionFilter)
      | SorterChange s ss \<Rightarrow>
          fst (step ext props body st i) = st \<and>
          pagination (changeEventInfo (fst (step ext props body st i))) =
            pagination (changeEventInfo st) \<and>
          evs =
            (case props_scroll props of
               None \<Rightarrow> []
             | Some sc \<Rightarrow>
                 (if scrollToFirstRowOnChange sc \<noteq> Some False \<and> body then [ScrollTo] else [])) @
            (if props_onChange props
             then [OnChange (pagination (changeEventInfo st)) (filters (changeEventInfo st)) s
                     (getFilterData ext
                        (getSortData ext (rawData props) ss (childrenColumnName props))
                        (filterStates (changeEventInfo st)))
                     ActionSort]
             else []) \<and>
          ResetPagination \<notin> set evs \<and> (\<forall>c p. PaginationOnChange c p \<notin> set evs) \<and>
          (props_onChange props \<longrightarrow>
             length (filter is_OnChange evs) = 1 \<and>
             last evs =
               OnChange (pagination (changeEventInfo st)) (filters (changeEventInfo st)) s
                 (getFilterData ext
                    (getSortData ext (rawData props) ss (childrenColumnName props))
                    (filterStates (changeEventInfo st)))
                 ActionSort)
      | PaginationChange c p \<Rightarrow>
          fst (step ext props body st i) = st \<and>
          pagination (changeEventInfo (fst (step ext props body st i))) =
            pagination (changeEventInfo st) \<and>
          ResetPagination \<notin> set evs \<and> (\<forall>c' p'. PaginationOnChange c' p' \<notin> set evs) \<and>
          (pagination_rendered props (hooks st) \<longrightarrow>
             evs =
               (case props_scroll props of
                  None \<Rightarrow> []
                | Some sc \<Rightarrow>
                    (if scrollToFirstRowOnChange sc \<noteq> Some False \<and> body then [ScrollTo] else [])) @
               (if props_onChange props
                then [OnChange ((pagination (changeEventInfo st))\<lparr>current := Some c, pageSize := Some p\<rparr>)
                        (filters (changeEventInfo st)) (sorter (changeEventInfo st))
                        (getFilterData ext
                           (getSortData ext (rawData props) (sorterStates (changeEventInfo st))
                              (childrenColumnName props))
                           (filterStates (changeEventInfo st)))
                        ActionPaginate]
                else []) \<and>
             ResetPagination \<notin> set evs \<and> (\<forall>c' p'. PaginationOnChange c' p' \<notin> set evs) \<and>
             (props_onChange props \<longrightarrow>
                length (filter is_OnChange evs) = 1 \<and>
                last evs =
                  OnChange ((pagination (changeEventInfo st))\<lparr>current := Some c, pageSize := Some p\<rparr>)
                    (filters (changeEventInfo st)) (sorter (changeEventInfo st))
                    (getFilterData ext
                       (getSortData ext (rawData props) (sorterStates (changeEventInfo st))
                          (childrenColumnName props))
                       (filterStates (changeEventInfo st)))
                    ActionPaginate)) \<and>
          (\<not> pagination_rendered props (hooks st) \<longrightarrow> evs = [])
      | HooksChange h \<Rightarrow> evs = [])"
  apply (rule run_all)
  subgoal for st i
  proof (cases i)
    case (FilterChange f fs)
    show ?thesis
      unfolding FilterChange interaction.case by (rule step_FilterChange_rule [OF refl])
  next
    case (SorterChange s ss)
    show ?thesis
      unfolding SorterChange interaction.case by (rule step_SorterChange_rule [OF refl])
  next
    case (PaginationChange c p)
    show ?thesis
      unfolding PaginationChange interaction.case by (rule step_PaginationChange_rule [OF refl])
  next
    case (HooksChange h)
    then show ?thesis by (simp add: step_HooksChange)
  qed
  done

theorem C2_reset_rule_witness:
  "count_list
     (snd (step example_ext (example_props (PaginationConfig example_config)) True
             (snd (InteralTable_setup example_ext (example_props (PaginationConfig example_config))
                     example_hooks))
             (FilterChange 5 3)))
     ResetPagination = 1 \<and>
   last
     (snd (step example_ext (example_props (PaginationConfig example_config)) True
             (snd (InteralTable_setup example_ext (example_props (PaginationConfig example_config))
                     example_hooks))
             (FilterChange 5 3))) =
     OnChange \<lparr>current = Some 1, pageSize = Some 1, total' = Some 2\<rparr> 5 0
       [example_row 3, example_row 2, example_row 1] ActionFilter \<and>
   pagination (changeEventInfo
     (fst (step example_ext (example_props (PaginationConfig example_config)) True
             (snd (InteralTable_setup example_ext (example_props (PaginationConfig example_config))
                     example_hooks))
             (FilterChange 5 3)))) =
     \<lparr>current = Some 1, pageSize = Some 1, total' = Some 2\<rparr> \<and>
   ResetPagination \<notin> set
     (snd (step example_ext (example_props (PaginationConfig example_config)) True
             (fst (step example_ext (example_props (PaginationConfig example_config)) True
                     (snd (InteralTable_setup example_ext
                             (example_props (PaginationConfig example_config)) example_hooks))
                     (FilterChange 5 3)))
             (SorterChange 7 0)))"
proof -
  let ?P = "example_props (PaginationConfig example_config)"
  let ?S0 = "snd (InteralTable_setup example_ext ?P example_hooks)"
  let ?e0 = "snd (step example_ext ?P True ?S0 (FilterChange 5 3))"
  let ?S1 = "fst (step example_ext ?P True ?S0 (FilterChange 5 3))"
  let ?e1 = "snd (step example_ext ?P True ?S1 (SorterChange 7 0))"
  let ?run = "run example_ext ?P True ?S0 [FilterChange 5 3, SorterChange 7 0]"
  have m0: "(?S0, FilterChange 5 3, ?e0) \<in> set ?run"
    and m1: "(?S1, SorterChange 7 0, ?e1) \<in> set ?run"
    by simp_all
  have sel: "props_onChange ?P" by (simp add: example_props_def)
  have s0: "changeEventInfo ?S0 =
      \<lparr>pagination = \<lparr>current = Some 2, pageSize = Some 1, total' = Some 2\<rparr>,
       filters = 0, sorter = 0, filterStates = 2, sorterStates = 1\<rparr>"
    by (simp add: InteralTable_setup_def watchEffect_def example_defs)
  note rule = C2_reset_rule [of example_ext ?P True ?S0 "[FilterChange 5 3, SorterChange 7 0]"]
  note r0 = bspec [OF rule m0, unfolded split_conv interaction.case]
  note r1 = bspec [OF rule m1, unfolded split_conv interaction.case]
  note after = r0 [THEN conjunct1]
  note filter_events = r0 [THEN conjunct2]
  note sorter_events = r1 [THEN conjunct2, THEN conjunct2]
  have c: "count_list ?e0 ResetPagination = 1"
    by (rule filter_events [THEN conjunct2, THEN conjunct2, THEN conjunct2, THEN conjunct1])
  note notification = filter_events [THEN conjunct2, THEN conjunct2, THEN conjunct2,
      THEN conjunct2, THEN conjunct2, THEN conjunct2, THEN mp, OF sel, THEN conjunct2]
  have l: "last ?e0 =
       OnChange \<lparr>current = Some 1, pageSize = Some 1, total' = Some 2\<rparr> 5 0
         [example_row 3, example_row 2, example_row 1] ActionFilter"
    by (subst notification, simp only: s0)
      (simp add: truthy_def example_defs rawData_def childrenColumnName_def)
  have p: "pagination (changeEventInfo ?S1) =
       \<lparr>current = Some 1, pageSize = Some 1, total' = Some 2\<rparr>"
    by (subst after) (simp add: s0 truthy_def)
  have n: "ResetPagination \<notin> set ?e1"
    by (rule sorter_events [THEN conjunct2, THEN conjunct1])
  from c l p n show ?thesis by blast
qed

text \<open>
  C2 as stated fails for a filter change in two settings: with pagination the literal
  \<open>false\<close> the notification carries no \<open>current\<close>, and with a \<open>current\<close> of 0 the
  pagination handler is asked for page 1 while the notification still carries 0.
\<close>

theorem C2_counterexample:
  "snd (step example_ext (example_props PaginationFalse) True
          (snd (InteralTable_setup example_ext (example_props PaginationFalse) example_hooks))
          (FilterChange 5 3)) =
     [ResetPagination, ScrollTo,
      OnChange \<lparr>current = None, pageSize = None, total' = None\<rparr> 5 0
        [example_row 3, example_row 2, example_row 1] ActionFilter] \<and>
   snd (step example_ext (example_props (PaginationConfig example_config)) True
          (snd (InteralTable_setup example_ext (example_props (PaginationConfig example_config))
                  (example_hooks\<lparr>mergedPagination_value :=
                     \<lparr>current = Some 0, pageSize = Some 1, total' = Some 2,
                      has_onChange = True\<rparr>\<rparr>)))
          (FilterChange 5 3)) =
     [ResetPagination, PaginationOnChange 1 (Some 1), ScrollTo,
      OnChange \<lparr>current = Some 0, pageSize = Some 1, total' = Some 2\<rparr> 5 0
        [example_row 3, example_row 2, example_row 1] ActionFilter]"
  by (simp add: step_FilterChange onFilterChange_events InteralTable_setup_def watchEffect_def
      example_defs truthy_def empty_pagination_def rawData_def childrenColumnName_def)

lemma step_pagination_false:
  fixes ext :: "('v, 'fs, 'ss) imported" and st :: "('f, 'so, 'fs, 'ss) table_state"
  assumes "props_pagination props = PaginationFalse"
    and "pagination (changeEventInfo st) = empty_pagination"
  shows "pagination (changeEventInfo (fst (step ext props body st i))) = empty_pagination"
    and "OnChange q f s d a \<in> set (snd (step ext props body st i)) \<Longrightarrow> q = empty_pagination"
proof -
  have falsy: "\<not> truthy (current empty_pagination)"
    by (simp add: truthy_def empty_pagination_def)
  show "pagination (changeEventInfo (fst (step ext props body st i))) = empty_pagination"
    using assms falsy
    by (cases i)
      (simp_all add: step_FilterChange step_SorterChange step_PaginationChange step_HooksChange
        onFilterChange_def onSorterChange_def triggerOnChange_snapshot spread_def
        pagination_rendered_def watchEffect_def)
  show "OnChange q f s d a \<in> set (snd (step ext props body st i)) \<Longrightarrow> q = empty_pagination"
    using assms falsy
    by (cases i)
      (auto simp: step_FilterChange step_SorterChange step_PaginationChange step_HooksChange
        onFilterChange_def onSorterChange_def triggerOnChange_events spread_def
        pagination_rendered_def split: if_splits option.splits)
qed

lemma run_pagination_false:
  fixes ext :: "('v, 'fs, 'ss) imported" and st0 :: "('f, 'so, 'fs, 'ss) table_state"
  assumes "props_pagination props = PaginationFalse"
    and "pagination (changeEventInfo st0) = empty_pagination"
    and "(st, i, evs) \<in> set (run ext props body st0 interactions)"
  shows "pagination (changeEventInfo st) = empty_pagination"
  using assms(2,3)
proof (induction interactions arbitrary: st0)
  case Nil
  then show ?case by simp
next
  case (Cons j rest)
  from Cons.prems(2) consider "st = st0" | "(st, i, evs) \<in> set (run ext props body (fst (step ext props body st0 j)) rest)"
    by auto
  then show ?case
  proof cases
    case 1
    with Cons.prems(1) show ?thesis by simp
  next
    case 2
    from step_pagination_false(1) [OF assms(1) Cons.prems(1)]
    have "pagination (changeEventInfo (fst (step ext props body st0 j))) = empty_pagination" .
    from Cons.IH [OF this 2] show ?thesis .
  qed
qed

text \<open>
  C10. While the \<open>pagination\<close> prop is the literal \<open>false\<close>, every change notification of
  every sequence of interactions after \<open>setup\<close> passes the empty object as its pagination
  argument.
\<close>

theorem C10_pagination_false:
  fixes ext :: "('v, 'fs, 'ss) imported" and hooks0 :: "('f, 'so, 'fs, 'ss) hook_values"
  assumes "props_pagination props = PaginationFalse"
  shows "\<forall>(st, i, evs) \<in> set (run ext props body (snd (InteralTable_setup ext props hooks0)) interactions).
           \<forall>q f s d a. OnChange q f s d a \<in> set evs \<longrightarrow> q = empty_pagination"
proof (intro ballI, clarify)
  fix st i and evs :: "('v, 'f, 'so) event list" and q f s d a
  assume m: "(st, i, evs) \<in> set (run ext props body (snd (InteralTable_setup ext props hooks0)) interactions)"
    and e: "OnChange q f s d a \<in> set evs"
  have "pagination (changeEventInfo (snd (InteralTable_setup ext props hooks0))) = empty_pagination"
    using assms by (simp add: InteralTable_setup_def watchEffect_def)
  from run_pagination_false [OF assms this m]
  have inv: "pagination (changeEventInfo st) = empty_pagination" .
  from m have "evs = snd (step ext props body st i)" by (rule run_events)
  with e step_pagination_false(2) [OF assms inv] show "q = empty_pagination" by blast
qed

theorem C10_pagination_false_witness:
  "OnChange empty_pagination 0 7 [example_row 1, example_row 2] ActionSort \<in> set
     (snd (step example_ext (example_props PaginationFalse) True
             (snd (InteralTable_setup example_ext (example_props PaginationFalse) example_hooks))
             (SorterChange 7 0)))"
proof -
  let ?P = "example_props PaginationFalse"
  let ?S0 = "snd (InteralTable_setup example_ext ?P example_hooks)"
  let ?evs = "snd (step example_ext ?P True ?S0 (SorterChange 7 0))"
  have p: "props_pagination ?P = PaginationFalse" by (simp add: example_props_def)
  have m: "(?S0, SorterChange 7 0, ?evs) \<in> set (run example_ext ?P True ?S0 [SorterChange 7 0])"
    by simp
  have e: "OnChange (pagination (changeEventInfo ?S0)) 0 7 [example_row 1, example_row 2] ActionSort
             \<in> set ?evs"
    by (simp add: step_SorterChange onSorterChange_def triggerOnChange_events spread_def
        InteralTable_setup_def watchEffect_def example_defs rawData_def childrenColumnName_def)
  from bspec [OF C10_pagination_false [OF p, of example_ext True example_hooks "[SorterChange 7 0]"] m] e
  have "pagination (changeEventInfo ?S0) = empty_pagination" by blast
  with e show ?thesis by simp
qed

subsection \<open>The pipeline: sort, then filter, then paginate\<close>

text \<open>
  C5. The data behind the display is the raw dataset sorted and then filtered; the
  displayed page is that dataset or a slice of it, so pagination comes last; and the
  \<open>currentDataSource\<close> of every change notification is the raw dataset sorted by the
  merged sorter states and then filtered by the merged filter states, never sliced. When
  the snapshot is the one the \<open>watchEffect\<close> built from the hooks' values and the call
  brings no new sorter or filter states, \<open>currentDataSource\<close> is the very dataset the
  display paginates.
\<close>

theorem C5_sort_then_filter:
  fixes ext :: "('v, 'fs, 'ss) imported" and hooks :: "('f, 'so, 'fs, 'ss) hook_values"
    and cei :: "('f, 'so, 'fs, 'ss) ChangeEventInfo"
  shows "mergedData ext props hooks =
           getFilterData ext
             (getSortData ext (rawData props) (sortStates_value hooks) (childrenColumnName props))
             (filterStates_value hooks) \<and>
         (snd (rendered_data D ext props hooks) = mergedData ext props hooks \<or>
          (\<exists>a b. snd (rendered_data D ext props hooks) = js_slice (mergedData ext props hooks) a b)) \<and>
         (\<forall>q f s d a.
            OnChange q f s d a \<in> set (snd (triggerOnChange ext props body cei info action reset)) \<longrightarrow>
            d = getFilterData ext
                  (getSortData ext (rawData props) (sorterStates (spread cei info))
                     (childrenColumnName props))
                  (filterStates (spread cei info))) \<and>
         (partial_sorterStates info = None \<and> partial_filterStates info = None \<longrightarrow>
            (\<forall>q f s d a.
               OnChange q f s d a \<in> set (snd (triggerOnChange ext props body
                                                (watchEffect ext props hooks) info action reset)) \<longrightarrow>
               d = mergedData ext props hooks))"
proof (intro conjI)
  show "mergedData ext props hooks =
           getFilterData ext
             (getSortData ext (rawData props) (sortStates_value hooks) (childrenColumnName props))
             (filterStates_value hooks)"
    by (simp add: mergedData_def sortedData_def)
  show "snd (rendered_data D ext props hooks) = mergedData ext props hooks \<or>
          (\<exists>a b. snd (rendered_data D ext props hooks) = js_slice (mergedData ext props hooks) a b)"
    unfolding rendered_data_def pageData_def Let_def
    by (auto split: if_splits)
  have data: "OnChange q f s d a \<in> set (snd (triggerOnChange ext props body c info action reset)) \<Longrightarrow>
      d = getFilterData ext
            (getSortData ext (rawData props) (sorterStates (spread c info)) (childrenColumnName props))
            (filterStates (spread c info))"
    for q f s d a and c :: "('f, 'so, 'fs, 'ss) ChangeEventInfo"
    unfolding triggerOnChange_events
    by (auto split: if_splits option.splits pagination_prop.splits)
  from data show "\<forall>q f s d a.
            OnChange q f s d a \<in> set (snd (triggerOnChange ext props body cei info action reset)) \<longrightarrow>
            d = getFilterData ext
                  (getSortData ext (rawData props) (sorterStates (spread cei info))
                     (childrenColumnName props))
                  (filterStates (spread cei info))"
    by blast
  show "partial_sorterStates info = None \<and> partial_filterStates info = None \<longrightarrow>
            (\<forall>q f s d a.
               OnChange q f s d a \<in> set (snd (triggerOnChange ext props body
                                                (watchEffect ext props hooks) info action reset)) \<longrightarrow>
               d = mergedData ext props hooks)"
  proof (intro impI allI)
    fix q f s d a
    assume i: "partial_sorterStates info = None \<and> partial_filterStates info = None"
      and e: "OnChange q f s d a \<in> set (snd (triggerOnChange ext props body
                                                (watchEffect ext props hooks) info action reset))"
    from data [OF e] i show "d = mergedData ext props hooks"
      by (simp add: spread_def watchEffect_def mergedData_def sortedData_def)
  qed
qed

theorem C5_sort_then_filter_witness:
  "mergedData example_ext (example_props PaginationUndefined) example_hooks =
     [example_row 3, example_row 2] \<and>
   rendered_data 10 example_ext (example_props PaginationUndefined) example_hooks =
     ([], [example_row 2]) \<and>
   OnChange \<lparr>current = Some 1, pageSize = Some 1, total' = Some 2\<rparr> 0 0
       [example_row 3, example_row 2] ActionPaginate \<in> set
     (snd (triggerOnChange example_ext (example_props PaginationUndefined) True
             (watchEffect example_ext (example_props PaginationUndefined) example_hooks)
             \<lparr>partial_pagination = Some \<lparr>current = Some 1, pageSize = Some 1, total' = Some 2\<rparr>,
              partial_filters = None, partial_sorter = None,
              partial_filterStates = None, partial_sorterStates = None\<rparr>
             ActionPaginate False))"
proof -
  let ?P = "example_props PaginationUndefined"
  let ?info = "\<lparr>partial_pagination = Some \<lparr>current = Some 1, pageSize = Some 1, total' = Some 2\<rparr>,
              partial_filters = None :: nat option, partial_sorter = None :: nat option,
              partial_filterStates = None :: nat option, partial_sorterStates = None :: nat option\<rparr>"
  let ?cei = "watchEffect example_ext ?P example_hooks"
  let ?evs = "snd (triggerOnChange example_ext ?P True ?cei ?info ActionPaginate False)"
  let ?d = "getFilterData example_ext
              (getSortData example_ext (rawData ?P) (sorterStates (spread ?cei ?info))
                 (childrenColumnName ?P))
              (filterStates (spread ?cei ?info))"
  have sel: "props_onChange ?P" "props_scroll ?P = Some \<lparr>scrollToFirstRowOnChange = None\<rparr>"
    by (simp_all add: example_props_def)
  have md: "mergedData example_ext ?P example_hooks = [example_row 3, example_row 2]"
    by (simp add: mergedData_def sortedData_def example_defs rawData_def childrenColumnName_def)
  have e: "OnChange \<lparr>current = Some 1, pageSize = Some 1, total' = Some 2\<rparr> 0 0 ?d ActionPaginate
             \<in> set ?evs"
    unfolding triggerOnChange_events
    by (simp add: sel) (simp add: spread_def watchEffect_def example_hooks_def)
  have "\<forall>q f s d a. OnChange q f s d a \<in> set ?evs \<longrightarrow> d = mergedData example_ext ?P example_hooks"
    using C5_sort_then_filter [of example_ext ?P example_hooks 10 True ?cei ?info ActionPaginate False]
    by (elim conjE) simp
  with e have "?d = mergedData example_ext ?P example_hooks" by blast
  with e md have 3: "OnChange \<lparr>current = Some 1, pageSize = Some 1, total' = Some 2\<rparr> 0 0
       [example_row 3, example_row 2] ActionPaginate \<in> set ?evs"
    by simp
  have 2: "rendered_data 10 example_ext ?P example_hooks = ([], [example_row 2])"
    unfolding rendered_data_def md
    by (simp add: pageData_def example_defs truthy_def js_less_opt_def devWarning_current js_slice_def)
  from md 2 3 show ?thesis by blast
qed

subsection \<open>Row keys and \<open>setup\<close>\<close>

text \<open>
  C6. When the configured \<open>rowKey\<close> is a function, the key of a record at an index is
  that function applied to the record and the index; when it is a field name, the key is
  the value of that field of the record, and \<open>undefined\<close> for a missing record.
\<close>

theorem C6_getRowKey:
  "getRowKey (props\<lparr>props_rowKey := RowKeyFunction n f\<rparr>) record index = f record index \<and>
   getRowKey (props\<lparr>props_rowKey := RowKeyName name\<rparr>) (Some r) index = r name \<and>
   getRowKey (props\<lparr>props_rowKey := RowKeyName name\<rparr>) None index = None"
  by (simp add: getRowKey_def)

text \<open>
  C8. When the configured \<open>rowKey\<close> is a function that declares more than one parameter
  (so also one that asks for more than the record and the index), \<open>setup\<close> emits the
  usage warning and goes on: it returns the same mounted state as for a function of one
  parameter, for which nothing is emitted, and the resolved key function is the
  configured one.
\<close>

theorem C8_rowKey_arity_warning:
  fixes ext :: "('v, 'fs, 'ss) imported" and hooks0 :: "('f, 'so, 'fs, 'ss) hook_values"
  assumes "props_rowKey props = RowKeyFunction n f" and "1 < n"
  shows "fst (InteralTable_setup ext props hooks0) = [rowKey_index_warning] \<and>
         snd (InteralTable_setup ext props hooks0) =
           \<lparr>hooks = hooks0, changeEventInfo = watchEffect ext props hooks0\<rparr> \<and>
         InteralTable_setup ext (props\<lparr>props_rowKey := RowKeyFunction 1 f\<rparr>) hooks0 =
           ([], snd (InteralTable_setup ext props hooks0)) \<and>
         getRowKey props = f"
  using assms
  by (simp add: InteralTable_setup_def devWarning_rowKey_index watchEffect_def getRowKey_def)

theorem C8_rowKey_arity_warning_witness:
  "InteralTable_setup example_ext
     ((example_props PaginationFalse)\<lparr>props_rowKey := RowKeyFunction 3 (\<lambda>r i. Some i)\<rparr>)
     example_hooks =
   ([rowKey_index_warning],
    \<lparr>hooks = example_hooks,
     changeEventInfo =
       \<lparr>pagination = empty_pagination, filters = 0, sorter = 0, filterStates = 2,
        sorterStates = 1\<rparr>\<rparr>)"
proof -
  let ?P = "(example_props PaginationFalse)\<lparr>props_rowKey := RowKeyFunction 3 (\<lambda>r i. Some i)\<rparr>"
  have k: "props_rowKey ?P = RowKeyFunction 3 (\<lambda>r i. Some i)" by simp
  have "watchEffect example_ext ?P example_hooks =
          \<lparr>pagination = empty_pagination, filters = 0, sorter = 0, filterStates = 2,
           sorterStates = 1\<rparr>"
    by (simp add: watchEffect_def example_props_def example_hooks_def)
  with C8_rowKey_arity_warning [OF k, of example_ext example_hooks] show ?thesis
    by (simp add: prod_eq_iff)
qed

end
